theory Spec2Isabelle
  imports Main
begin

section \<open>JavaScript strings\<close>

text \<open>
  A JavaScript string is a sequence of UTF-16 code units. The text a user types
  (the snippet, the repository URL, a file name) is modelled as the list of its code
  units; the string literals of the program are ASCII and are written as HOL strings,
  turned into code units by \<open>utf16\<close> where the program compares them with user text.
\<close>

type_synonym js_string = "nat list"

definition utf16 :: "string \<Rightarrow> js_string" where
  "utf16 s = map of_char s"

text \<open>
  \<open>String.prototype.trim\<close> removes the WhiteSpace and LineTerminator code points of
  ECMAScript from both ends: TAB, LF, VT, FF, CR, SP, NBSP, U+1680, U+2000 to U+200A,
  U+2028, U+2029, U+202F, U+205F, U+3000 and U+FEFF.
\<close>

definition isWhiteSpace :: "nat \<Rightarrow> bool" where
  "isWhiteSpace c =
     (c = 9 \<or> c = 10 \<or> c = 11 \<or> c = 12 \<or> c = 13 \<or> c = 32 \<or> c = 160 \<or> c = 5760 \<or>
      (8192 \<le> c \<and> c \<le> 8202) \<or> c = 8232 \<or> c = 8233 \<or> c = 8239 \<or> c = 8287 \<or>
      c = 12288 \<or> c = 65279)"

definition js_trim :: "js_string \<Rightarrow> js_string" where
  "js_trim s = rev (dropWhile isWhiteSpace (rev (dropWhile isWhiteSpace s)))"

text \<open>\<open>s.endsWith(suffix)\<close>: the last code units of \<open>s\<close> are those of \<open>suffix\<close>.\<close>

definition endsWith :: "js_string \<Rightarrow> js_string \<Rightarrow> bool" where
  "endsWith s suffix =
     (length suffix \<le> length s \<and> drop (length s - length suffix) s = suffix)"

section \<open>The types of the client (frontend/src/types/index.ts)\<close>

datatype migration_type = py2to3 | flask_to_fastapi

datatype agent = planner | coder | tester

text \<open>
  The interface \<open>MigrationJob\<close>. An optional field is an \<open>option\<close>; the counters are
  JavaScript numbers that hold counts and are modelled as integers. The status is kept as
  the string it is at run time: the type declares nine string literals for it (see
  \<open>declared_statuses\<close> below), but a job arrives from the API as it is, and the
  components compare its status with string literals.
\<close>

record MigrationJob =
  job_id :: string
  status :: string
  migration_type :: migration_type
  created_at :: string
  completed_at :: "string option"
  error :: "string option"
  file_count :: int
  issues_found :: int
  issues_fixed :: int
  tests_passed :: "bool option"
  pr_url :: "string option"
  current_agent :: "agent option"
  messages :: "string list option"

record SnippetResponse =
  original_code :: string
  migrated_code :: string
  sr_issues_found :: int
  sr_issues_fixed :: int
  sr_migration_type :: string

text \<open>The wire value of a migration type: the string literal of the union type.\<close>

fun migration_type_value :: "migration_type \<Rightarrow> string" where
  "migration_type_value py2to3 = ''py2to3''"
| "migration_type_value flask_to_fastapi = ''flask_to_fastapi''"

section \<open>Requests to the API\<close>

text \<open>Of a browser \<open>File\<close> the client reads the name and the size.\<close>

record File =
  file_name :: js_string
  file_size :: nat

text \<open>
  The calls of \<open>lib/api\<close> that the components make, with their arguments. The module
  itself is not among the sources; a component only ever sees whether a call resolved,
  and with what, or was rejected.
\<close>

datatype api_request =
  MigrateSnippet js_string string
| MigrateRepository js_string string bool
| StartMigration File string
| GetJobStatus string

fun request_kind :: "api_request \<Rightarrow> string option" where
  "request_kind (MigrateSnippet code kind) = Some kind"
| "request_kind (MigrateRepository url kind autoCreatePR) = Some kind"
| "request_kind (StartMigration file kind) = Some kind"
| "request_kind (GetJobStatus jid) = None"

text \<open>
  The migration kinds that are recognized: the wire values of the two members of the
  union type \<open>MigrationJob.migration_type\<close>.
\<close>

definition recognized_kinds :: "string list" where
  "recognized_kinds = map migration_type_value [py2to3, flask_to_fastapi]"

text \<open>
  A component is run on a list of events; each step yields the next state and the request
  it issued, if any. The requests are collected in order. The step functions of the
  components below accept a click also where the rendered button is disabled, and the
  settling of a migrate or submit request also where none was issued: this only adds
  runs to those of the browser.
\<close>

fun run_events ::
    "('e \<Rightarrow> 's \<Rightarrow> 's \<times> api_request option) \<Rightarrow> 'e list \<Rightarrow> 's \<Rightarrow> 's \<times> api_request list" where
  "run_events step [] s = (s, [])"
| "run_events step (e # es) s =
     (case step e s of
        (s1, r) \<Rightarrow>
          (case run_events step es s1 of
             (s2, rs) \<Rightarrow> (s2, (case r of None \<Rightarrow> [] | Some q \<Rightarrow> [q]) @ rs)))"

section \<open>CodeSnippet (frontend/src/components/CodeSnippet.tsx)\<close>

text \<open>
  The state of the component is the tuple of its \<open>useState\<close> cells. The migration type
  is kept as the string the cell holds at run time. An \<open>async\<close> handler is split at its
  \<open>await\<close>: the part that runs up to the call of the API, which returns the request it
  issues (or none), and the part that runs when the request has settled.
\<close>

record CodeSnippet_state =
  cs_code :: js_string
  cs_migrationType :: string
  cs_result :: "SnippetResponse option"
  cs_isLoading :: bool
  cs_error :: "string option"
  cs_copied :: bool

definition CodeSnippet_init :: CodeSnippet_state where
  "CodeSnippet_init =
     \<lparr>cs_code = [], cs_migrationType = ''py2to3'', cs_result = None, cs_isLoading = False,
      cs_error = None, cs_copied = False\<rparr>"

text \<open>
  \<open>handleMigrate\<close> up to its \<open>await\<close>: a snippet that is empty after trimming sets the
  error and returns; otherwise the loading flag is set, error and result are cleared and
  \<open>api.migrateSnippet(code, migrationType)\<close> is called.
\<close>

definition CodeSnippet_handleMigrate ::
    "CodeSnippet_state \<Rightarrow> CodeSnippet_state \<times> api_request option" where
  "CodeSnippet_handleMigrate s =
     (if js_trim (cs_code s) = [] then
        (s\<lparr>cs_error := Some ''Please enter some code to migrate''\<rparr>, None)
      else
        (s\<lparr>cs_isLoading := True, cs_error := None, cs_result := None\<rparr>,
         Some (MigrateSnippet (cs_code s) (cs_migrationType s))))"

text \<open>
  \<open>detail || fallback\<close> on the detail of a rejected request: a missing or an empty
  detail gives the fallback.
\<close>

definition detail_or :: "string option \<Rightarrow> string \<Rightarrow> string" where
  "detail_or detail fallback =
     (case detail of None \<Rightarrow> fallback | Some d \<Rightarrow> if d = [] then fallback else d)"

text \<open>
  The rest of \<open>handleMigrate\<close>, when the request has settled: the response is stored,
  or the error is set to \<open>err.response?.data?.detail || 'Migration failed'\<close>;
  \<open>finally\<close> clears the loading flag.
\<close>

definition CodeSnippet_migrateSettled ::
    "string option + SnippetResponse \<Rightarrow> CodeSnippet_state \<Rightarrow> CodeSnippet_state" where
  "CodeSnippet_migrateSettled outcome s =
     (case outcome of
        Inr response \<Rightarrow> s\<lparr>cs_result := Some response, cs_isLoading := False\<rparr>
      | Inl detail \<Rightarrow>
          s\<lparr>cs_error := Some (detail_or detail ''Migration failed''), cs_isLoading := False\<rparr>)"

text \<open>
  The events of the component: the two buttons of the migration type (each also clears
  the result), an edit of the text area, a click on the migrate button, and the
  settling of the request. The handlers \<open>loadExample\<close> and \<open>handleCopy\<close> write the
  code, the result, the error and the copied flag only, and call no API; they are left
  out.
\<close>

datatype CodeSnippet_event =
  cs_ClickPy2to3
| cs_ClickFlaskToFastapi
| cs_ChangeCode js_string
| cs_ClickMigrate
| cs_MigrateSettled "string option + SnippetResponse"

fun CodeSnippet_step ::
    "CodeSnippet_event \<Rightarrow> CodeSnippet_state \<Rightarrow> CodeSnippet_state \<times> api_request option" where
  "CodeSnippet_step cs_ClickPy2to3 s =
     (s\<lparr>cs_migrationType := ''py2to3'', cs_result := None\<rparr>, None)"
| "CodeSnippet_step cs_ClickFlaskToFastapi s =
     (s\<lparr>cs_migrationType := ''flask_to_fastapi'', cs_result := None\<rparr>, None)"
| "CodeSnippet_step (cs_ChangeCode text) s = (s\<lparr>cs_code := text\<rparr>, None)"
| "CodeSnippet_step cs_ClickMigrate s = CodeSnippet_handleMigrate s"
| "CodeSnippet_step (cs_MigrateSettled outcome) s = (CodeSnippet_migrateSettled outcome s, None)"

section \<open>RepoMigration (unnamed/part_002)\<close>

text \<open>
  Next to its \<open>useState\<close> cells the state holds what the polling effect needs at run
  time: whether the interval that the effect set up is live, and how many
  \<open>getJobStatus\<close> calls are awaiting their response.
\<close>

record RepoMigration_state =
  rm_repoUrl :: js_string
  rm_migrationType :: string
  rm_autoCreatePR :: bool
  rm_isLoading :: bool
  rm_job :: "MigrationJob option"
  rm_error :: "string option"
  rm_pollInterval :: bool
  rm_inFlight :: nat

definition RepoMigration_init :: RepoMigration_state where
  "RepoMigration_init =
     \<lparr>rm_repoUrl = [], rm_migrationType = ''py2to3'', rm_autoCreatePR = True,
      rm_isLoading = False, rm_job = None, rm_error = None, rm_pollInterval = False,
      rm_inFlight = 0\<rparr>"

text \<open>The test of both polling effects: the status is \<open>completed\<close> or \<open>failed\<close>.\<close>

definition jobFinished :: "MigrationJob \<Rightarrow> bool" where
  "jobFinished j = (status j = ''completed'' \<or> status j = ''failed'')"

text \<open>
  \<open>setJob\<close> together with the effect that depends on \<open>[job]\<close>. When the job changes,
  the cleanup of the effect clears the interval, and the effect runs for the new job: it
  returns at once for no job and for a finished job, and sets up an interval otherwise.
  A job object that arrives from the API is a new object, so the job always changes then;
  \<open>setJob(null)\<close> on no job changes nothing.
\<close>

fun RepoMigration_setJob ::
    "MigrationJob option \<Rightarrow> RepoMigration_state \<Rightarrow> RepoMigration_state" where
  "RepoMigration_setJob None s =
     (if rm_job s = None then s else s\<lparr>rm_job := None, rm_pollInterval := False\<rparr>)"
| "RepoMigration_setJob (Some j) s =
     s\<lparr>rm_job := Some j, rm_pollInterval := \<not> jobFinished j\<rparr>"

definition RepoMigration_handleMigrate ::
    "RepoMigration_state \<Rightarrow> RepoMigration_state \<times> api_request option" where
  "RepoMigration_handleMigrate s =
     (if js_trim (rm_repoUrl s) = [] then
        (s\<lparr>rm_error := Some ''Please enter a repository URL''\<rparr>, None)
      else
        (RepoMigration_setJob None (s\<lparr>rm_isLoading := True, rm_error := None\<rparr>),
         Some (MigrateRepository (rm_repoUrl s) (rm_migrationType s) (rm_autoCreatePR s))))"

text \<open>
  What a rejected \<open>migrateRepository\<close> throws: an \<open>Error\<close> with its message, or
  another value; the error shown is \<open>err instanceof Error ? err.message : 'Migration failed'\<close>.
\<close>

datatype thrown = ErrorObject string | OtherValue

definition RepoMigration_migrateSettled ::
    "thrown + MigrationJob \<Rightarrow> RepoMigration_state \<Rightarrow> RepoMigration_state" where
  "RepoMigration_migrateSettled outcome s =
     (case outcome of
        Inr newJob \<Rightarrow> (RepoMigration_setJob (Some newJob) s)\<lparr>rm_isLoading := False\<rparr>
      | Inl (ErrorObject message) \<Rightarrow> s\<lparr>rm_error := Some message, rm_isLoading := False\<rparr>
      | Inl OtherValue \<Rightarrow> s\<lparr>rm_error := Some ''Migration failed'', rm_isLoading := False\<rparr>)"

text \<open>
  The callback of the interval, up to its \<open>await\<close>: it runs only while the interval is
  live, and calls \<open>getJobStatus\<close> for the job the effect ran for.
\<close>

definition RepoMigration_pollTick ::
    "RepoMigration_state \<Rightarrow> RepoMigration_state \<times> api_request option" where
  "RepoMigration_pollTick s =
     (case rm_job s of
        None \<Rightarrow> (s, None)
      | Some j \<Rightarrow>
          if rm_pollInterval s
          then (s\<lparr>rm_inFlight := rm_inFlight s + 1\<rparr>, Some (GetJobStatus (job_id j)))
          else (s, None))"

text \<open>
  The rest of the callback, when a \<open>getJobStatus\<close> call has settled (there is none to
  settle when no call is awaited). A rejection is logged. A response is stored with
  \<open>setJob\<close>; the callback then clears its own interval for a finished job, which the
  cleanup of the effect does as well, for whatever interval is live.
\<close>

definition RepoMigration_pollSettled ::
    "unit + MigrationJob \<Rightarrow> RepoMigration_state \<Rightarrow> RepoMigration_state" where
  "RepoMigration_pollSettled outcome s =
     (if rm_inFlight s = 0 then s
      else
        (case outcome of
           Inl _ \<Rightarrow> s\<lparr>rm_inFlight := rm_inFlight s - 1\<rparr>
         | Inr updatedJob \<Rightarrow>
             RepoMigration_setJob (Some updatedJob) (s\<lparr>rm_inFlight := rm_inFlight s - 1\<rparr>)))"

text \<open>The two events of polling: the interval fires, and a status call settles.\<close>

datatype poll_event = PollTick | PollSettled "unit + MigrationJob"

fun RepoMigration_poll ::
    "poll_event \<Rightarrow> RepoMigration_state \<Rightarrow> RepoMigration_state \<times> api_request option" where
  "RepoMigration_poll PollTick s = RepoMigration_pollTick s"
| "RepoMigration_poll (PollSettled outcome) s = (RepoMigration_pollSettled outcome s, None)"

text \<open>
  The select element of the migration type offers two options; a change event carries
  the value of the option that was chosen, and the handler stores that string.
\<close>

datatype select_option = option_py2to3 | option_flask_to_fastapi

fun option_value :: "select_option \<Rightarrow> string" where
  "option_value option_py2to3 = ''py2to3''"
| "option_value option_flask_to_fastapi = ''flask_to_fastapi''"

datatype RepoMigration_event =
  rm_ChangeRepoUrl js_string
| rm_ChangeMigrationType select_option
| rm_ChangeAutoCreatePR bool
| rm_ClickMigrate
| rm_MigrateSettled "thrown + MigrationJob"
| rm_Poll poll_event

fun RepoMigration_step ::
    "RepoMigration_event \<Rightarrow> RepoMigration_state \<Rightarrow> RepoMigration_state \<times> api_request option"
    where
  "RepoMigration_step (rm_ChangeRepoUrl url) s = (s\<lparr>rm_repoUrl := url\<rparr>, None)"
| "RepoMigration_step (rm_ChangeMigrationType opt) s =
     (s\<lparr>rm_migrationType := option_value opt\<rparr>, None)"
| "RepoMigration_step (rm_ChangeAutoCreatePR b) s = (s\<lparr>rm_autoCreatePR := b\<rparr>, None)"
| "RepoMigration_step rm_ClickMigrate s = RepoMigration_handleMigrate s"
| "RepoMigration_step (rm_MigrateSettled outcome) s =
     (RepoMigration_migrateSettled outcome s, None)"
| "RepoMigration_step (rm_Poll e) s = RepoMigration_poll e s"

subsection \<open>The status badge and the progress indicator\<close>


text \<open>
  \<open>Array.prototype.indexOf\<close>: the index of the first element that is strictly equal
  to the argument, and \<open>-1\<close> when there is none.
\<close>

fun indexOf_from :: "int \<Rightarrow> 'a list \<Rightarrow> 'a \<Rightarrow> int" where
  "indexOf_from k [] x = - 1"
| "indexOf_from k (y # ys) x = (if y = x then k else indexOf_from (k + 1) ys x)"

definition indexOf :: "'a list \<Rightarrow> 'a \<Rightarrow> int" where
  "indexOf xs x = indexOf_from 0 xs x"

definition stages :: "string list" where
  "stages = [''cloning'', ''planning'', ''coding'', ''testing'', ''completed'']"

definition isActive :: "string \<Rightarrow> nat \<Rightarrow> bool" where
  "isActive st index = (indexOf stages st \<ge> int index)"

definition isCurrent :: "string \<Rightarrow> string \<Rightarrow> bool" where
  "isCurrent st stage = (st = stage)"

text \<open>
  What the \<open>map\<close> over the stage list renders for a job status: for each stage, in
  order, whether its circle is filled (\<open>isActive\<close>) and whether it carries the ring of
  the current stage (\<open>isCurrent\<close>).
\<close>

definition progressIndicator :: "string \<Rightarrow> (bool \<times> bool) list" where
  "progressIndicator st =
     map (\<lambda>(stage, index). (isActive st index, isCurrent st stage))
       (zip stages [0 ..< length stages])"

section \<open>FileUpload (frontend/src/components/FileUpload.tsx)\<close>

record FileUpload_state =
  fu_selectedFile :: "File option"
  fu_migrationType :: string
  fu_isUploading :: bool
  fu_error :: "string option"

definition FileUpload_init :: FileUpload_state where
  "FileUpload_init =
     \<lparr>fu_selectedFile = None, fu_migrationType = ''py2to3'', fu_isUploading = False,
      fu_error = None\<rparr>"

text \<open>
  \<open>onDrop(acceptedFiles)\<close>: the error is cleared; of a non-empty list the first file
  is looked at, and it becomes the selected file when its name ends with \<open>.zip\<close>;
  otherwise the error is set.
\<close>

definition onDrop :: "File list \<Rightarrow> FileUpload_state \<Rightarrow> FileUpload_state" where
  "onDrop acceptedFiles s =
     (let s1 = s\<lparr>fu_error := None\<rparr> in
      case acceptedFiles of
        [] \<Rightarrow> s1
      | file # _ \<Rightarrow>
          if endsWith (file_name file) (utf16 ''.zip'')
          then s1\<lparr>fu_selectedFile := Some file\<rparr>
          else s1\<lparr>fu_error := Some ''Please upload a ZIP file''\<rparr>)"

text \<open>
  \<open>onDrop\<close> is the callback of \<open>useDropzone\<close>, configured to accept the ZIP types
  \<open>application/zip\<close> and \<open>application/x-zip-compressed\<close> with the extension
  \<open>.zip\<close>, and a single file (\<open>maxFiles: 1\<close>, \<open>multiple: false\<close>). The library,
  which is outside the repository, sorts the files of a drop into those it accepts and
  those it rejects, and calls \<open>onDrop\<close> with the accepted ones; a drop is given here
  by that outcome. A file such as \<open>notes.txt\<close> of type \<open>text/plain\<close> is rejected.
  The rejections are the second argument of the callback, which \<open>onDrop\<close> does not
  take: it reads the accepted files only.
\<close>

record drop_event =
  drop_accepted :: "File list"
  drop_rejected :: "File list"

definition FileUpload_drop :: "drop_event \<Rightarrow> FileUpload_state \<Rightarrow> FileUpload_state" where
  "FileUpload_drop d s = onDrop (drop_accepted d) s"

text \<open>
  \<open>handleSubmit\<close> up to its \<open>await\<close>: without a selected file it returns;
  otherwise \<open>api.startMigration(selectedFile, migrationType)\<close> is called. When the
  request has settled, the job goes to the parent (\<open>onUploadStart\<close>), or the error is
  set and the uploading flag is cleared. \<open>handleRemoveFile\<close> clears file and error.
\<close>

definition handleSubmit :: "FileUpload_state \<Rightarrow> FileUpload_state \<times> api_request option" where
  "handleSubmit s =
     (case fu_selectedFile s of
        None \<Rightarrow> (s, None)
      | Some file \<Rightarrow>
          (s\<lparr>fu_isUploading := True, fu_error := None\<rparr>,
           Some (StartMigration file (fu_migrationType s))))"

definition submitSettled ::
    "string option + MigrationJob \<Rightarrow> FileUpload_state \<Rightarrow> FileUpload_state" where
  "submitSettled outcome s =
     (case outcome of
        Inr job \<Rightarrow> s
      | Inl detail \<Rightarrow>
          s\<lparr>fu_error := Some (detail_or detail ''Failed to start migration''),
            fu_isUploading := False\<rparr>)"

definition handleRemoveFile :: "FileUpload_state \<Rightarrow> FileUpload_state" where
  "handleRemoveFile s = s\<lparr>fu_selectedFile := None, fu_error := None\<rparr>"

datatype FileUpload_event =
  fu_ClickPy2to3
| fu_ClickFlaskToFastapi
| fu_Drop "File list"
| fu_ClickRemove
| fu_ClickSubmit
| fu_SubmitSettled "string option + MigrationJob"

fun FileUpload_step ::
    "FileUpload_event \<Rightarrow> FileUpload_state \<Rightarrow> FileUpload_state \<times> api_request option" where
  "FileUpload_step fu_ClickPy2to3 s = (s\<lparr>fu_migrationType := ''py2to3''\<rparr>, None)"
| "FileUpload_step fu_ClickFlaskToFastapi s =
     (s\<lparr>fu_migrationType := ''flask_to_fastapi''\<rparr>, None)"
| "FileUpload_step (fu_Drop acceptedFiles) s = (onDrop acceptedFiles s, None)"
| "FileUpload_step fu_ClickRemove s = (handleRemoveFile s, None)"
| "FileUpload_step fu_ClickSubmit s = handleSubmit s"
| "FileUpload_step (fu_SubmitSettled outcome) s = (submitSettled outcome s, None)"

section \<open>MigrationProgress (second part of frontend/src/components/FileUpload.tsx)\<close>



text \<open>
  The polling effect of this component depends on the id and the status of the current
  job (and on the callback \<open>onComplete\<close>, taken to be the same function throughout).
  The state holds the two cells of the component, the jobs handed to \<open>onComplete\<close>, and,
  as for RepoMigration, whether the interval is live and how many \<open>getJobStatus\<close>
  calls are awaited.
\<close>

record MigrationProgress_state =
  mp_currentJob :: MigrationJob
  mp_pollCount :: nat
  mp_onComplete :: "MigrationJob list"
  mp_pollInterval :: bool
  mp_inFlight :: nat

text \<open>Mounting the component for a job: the effect runs for that job.\<close>

definition MigrationProgress_mount :: "MigrationJob \<Rightarrow> MigrationProgress_state" where
  "MigrationProgress_mount job =
     \<lparr>mp_currentJob = job, mp_pollCount = 0, mp_onComplete = [],
      mp_pollInterval = \<not> jobFinished job, mp_inFlight = 0\<rparr>"

definition MigrationProgress_pollTick ::
    "MigrationProgress_state \<Rightarrow> MigrationProgress_state \<times> api_request option" where
  "MigrationProgress_pollTick s =
     (if mp_pollInterval s
      then (s\<lparr>mp_inFlight := mp_inFlight s + 1\<rparr>,
            Some (GetJobStatus (job_id (mp_currentJob s))))
      else (s, None))"

text \<open>
  When a call has settled with a job: the job is stored and the poll count goes up;
  \<open>onComplete\<close> is called for a completed job; the interval is cleared for a finished
  job. The effect runs again, for the new job, when the id or the status changed.
\<close>

definition MigrationProgress_pollSettled ::
    "unit + MigrationJob \<Rightarrow> MigrationProgress_state \<Rightarrow> MigrationProgress_state" where
  "MigrationProgress_pollSettled outcome s =
     (if mp_inFlight s = 0 then s
      else
        (case outcome of
           Inl _ \<Rightarrow> s\<lparr>mp_inFlight := mp_inFlight s - 1\<rparr>
         | Inr updatedJob \<Rightarrow>
             s\<lparr>mp_inFlight := mp_inFlight s - 1,
               mp_currentJob := updatedJob,
               mp_pollCount := mp_pollCount s + 1,
               mp_onComplete :=
                 (if status updatedJob = ''completed'' then mp_onComplete s @ [updatedJob]
                  else mp_onComplete s),
               mp_pollInterval :=
                 (if job_id updatedJob \<noteq> job_id (mp_currentJob s) \<or>
                     status updatedJob \<noteq> status (mp_currentJob s)
                  then \<not> jobFinished updatedJob
                  else if jobFinished updatedJob then False
                  else mp_pollInterval s)\<rparr>))"

fun MigrationProgress_poll ::
    "poll_event \<Rightarrow> MigrationProgress_state \<Rightarrow> MigrationProgress_state \<times> api_request option"
    where
  "MigrationProgress_poll PollTick s = MigrationProgress_pollTick s"
| "MigrationProgress_poll (PollSettled outcome) s =
     (MigrationProgress_pollSettled outcome s, None)"

section \<open>The statuses of a job\<close>



section \<open>The orchestrator of the specification\<close>

text \<open>
  Modelled from the spec: the workflow engine, the retry controller, the job store and
  the status publisher (sections 3, 4 and 6 of the specification). The server is not
  among the sources; the client above is its only caller there. The definitions follow
  the words of the specification. Left out are the parts no property below reads:
  checkpoints, the artifact, timestamps, and cancellation, which takes effect at a stage
  boundary of its own. A timeout reaches the controller as the failure outcome that
  section 5 assigns to it.
\<close>

datatype Status = Pending | Cloning | Planning | Coding | Testing | Completed | Failed

datatype Executor = Planner | Coder | Tester

datatype TestOutcome = TestUnknown | TestPassed | TestFailed

datatype ErrorDetail = StageFailure string | ConvergenceFailure

record Metrics =
  moreFilesProcessed :: nat
  moreIssuesFound :: nat
  moreIssuesFixed :: nat

text \<open>\<open>StageOutcome\<close>: \<open>Success{payload, metrics}\<close> or \<open>Failure{cause, retryable}\<close>.\<close>

datatype StageOutcome = Success string Metrics | Failure string bool

record Job =
  jobId :: nat
  sourceRef :: string
  migrationKind :: string
  autoPublish :: bool
  jobStatus :: Status
  currentAgent :: "Executor option"
  filesProcessed :: nat
  issuesFound :: nat
  issuesFixed :: nat
  testOutcome :: TestOutcome
  errorDetail :: "ErrorDetail option"
  activityLog :: "string list"
  testRetryCount :: nat

definition isTerminal :: "Job \<Rightarrow> bool" where
  "isTerminal j = (jobStatus j = Completed \<or> jobStatus j = Failed)"

text \<open>
  Status and current agent are updated together: the agent is the executor of the
  status, or none when the job is idle or terminal. Each transition appends one entry
  to the activity log.
\<close>

fun agentOf :: "Status \<Rightarrow> Executor option" where
  "agentOf Planning = Some Planner"
| "agentOf Coding = Some Coder"
| "agentOf Testing = Some Tester"
| "agentOf _ = None"

definition enterStatus :: "Status \<Rightarrow> string \<Rightarrow> Job \<Rightarrow> Job" where
  "enterStatus st entry j =
     j\<lparr>jobStatus := st, currentAgent := agentOf st, activityLog := activityLog j @ [entry]\<rparr>"

definition failJob :: "ErrorDetail \<Rightarrow> string \<Rightarrow> Job \<Rightarrow> Job" where
  "failJob cause entry j = (enterStatus Failed entry j)\<lparr>errorDetail := Some cause\<rparr>"

definition addMetrics :: "Metrics \<Rightarrow> Job \<Rightarrow> Job" where
  "addMetrics m j =
     j\<lparr>filesProcessed := filesProcessed j + moreFilesProcessed m,
       issuesFound := issuesFound j + moreIssuesFound m,
       issuesFixed := issuesFixed j + moreIssuesFixed m\<rparr>"

text \<open>
  The retry controller on a retryable failure of Testing (section 4.3): the retry count
  of the job is incremented; below the configured maximum the Coder is invoked again,
  at or above it the job fails with "validation did not converge". The count is per
  job and is reported at the end of a job (scenarios B and C), so it is not reset.
\<close>

definition retryTesting :: "nat \<Rightarrow> Job \<Rightarrow> Job" where
  "retryTesting maxRetries j =
     (let j1 = j\<lparr>testRetryCount := testRetryCount j + 1, testOutcome := TestFailed\<rparr> in
      if testRetryCount j1 < maxRetries
      then enterStatus Coding ''validation failed, rewriting again'' j1
      else failJob ConvergenceFailure ''validation did not converge'' j1)"

text \<open>
  The events of the engine: the scheduler picks a pending job up, and the executor of
  the current stage returns its outcome.
\<close>

datatype Event = Pickup | Outcome StageOutcome

text \<open>
  The transition table (section 4.1), by the status of the job. No transition leaves a
  terminal state. A failure of Cloning, Planning or Coding is fatal whatever its
  retryable flag says; a failure of Testing is retried when it is retryable.
\<close>

fun advance :: "nat \<Rightarrow> Status \<Rightarrow> Event \<Rightarrow> Job \<Rightarrow> Job" where
  "advance maxRetries Completed ev j = j"
| "advance maxRetries Failed ev j = j"
| "advance maxRetries Pending Pickup j = enterStatus Cloning ''cloning'' j"
| "advance maxRetries Pending (Outcome out) j = j"
| "advance maxRetries st Pickup j = j"
| "advance maxRetries Cloning (Outcome (Success payload m)) j =
     enterStatus Planning ''planning'' (addMetrics m j)"
| "advance maxRetries Planning (Outcome (Success payload m)) j =
     enterStatus Coding ''coding'' (addMetrics m j)"
| "advance maxRetries Coding (Outcome (Success payload m)) j =
     enterStatus Testing ''testing'' (addMetrics m j)"
| "advance maxRetries Testing (Outcome (Success payload m)) j =
     (enterStatus Completed ''completed'' (addMetrics m j))\<lparr>testOutcome := TestPassed\<rparr>"
| "advance maxRetries Testing (Outcome (Failure cause retryable)) j =
     (if retryable then retryTesting maxRetries j
      else failJob (StageFailure cause) ''failed'' (j\<lparr>testOutcome := TestFailed\<rparr>))"
| "advance maxRetries st (Outcome (Failure cause retryable)) j =
     failJob (StageFailure cause) ''failed'' j"

definition transition :: "nat \<Rightarrow> Job \<Rightarrow> Event \<Rightarrow> Job" where
  "transition maxRetries j ev = advance maxRetries (jobStatus j) ev j"

text \<open>A job as Create Job makes it: pending, idle, all counters zero.\<close>

definition newJob :: "nat \<Rightarrow> string \<Rightarrow> string \<Rightarrow> bool \<Rightarrow> Job" where
  "newJob i source kind publish =
     \<lparr>jobId = i, sourceRef = source, migrationKind = kind, autoPublish = publish,
      jobStatus = Pending, currentAgent = None, filesProcessed = 0, issuesFound = 0,
      issuesFixed = 0, testOutcome = TestUnknown, errorDetail = None, activityLog = [],
      testRetryCount = 0\<rparr>"

text \<open>
  The invariant of the retry count: it is within the maximum, and below it while the job
  is not terminal.
\<close>

definition retryInv :: "nat \<Rightarrow> Job \<Rightarrow> bool" where
  "retryInv maxRetries j =
     (testRetryCount j \<le> maxRetries \<and> (isTerminal j \<or> testRetryCount j < maxRetries))"

subsection \<open>Job store and status publisher\<close>

text \<open>
  Modelled from the spec: the job store (section 4.4), keyed by job id. Create fails if
  the id exists; get fails with NotFound; the atomic update applies a transition
  function and fails if the job is already terminal. The status publisher and Get Job
  Status (sections 4.5 and 6) return the stored job. Create Job (section 6) fails with
  InvalidInput for an unrecognized migration kind and stores a new pending job
  otherwise; the id it assigns is an argument here.
\<close>

datatype ApiError = InvalidInput | NotFound | AlreadyExists | AlreadyTerminal

type_synonym JobStore = "nat \<rightharpoonup> Job"

definition storeCreate :: "JobStore \<Rightarrow> Job \<Rightarrow> ApiError + JobStore" where
  "storeCreate store j =
     (case store (jobId j) of
        Some _ \<Rightarrow> Inl AlreadyExists
      | None \<Rightarrow> Inr (store(jobId j \<mapsto> j)))"

definition storeGet :: "JobStore \<Rightarrow> nat \<Rightarrow> ApiError + Job" where
  "storeGet store i = (case store i of None \<Rightarrow> Inl NotFound | Some j \<Rightarrow> Inr j)"

definition storeUpdate :: "JobStore \<Rightarrow> nat \<Rightarrow> (Job \<Rightarrow> Job) \<Rightarrow> ApiError + JobStore" where
  "storeUpdate store i f =
     (case store i of
        None \<Rightarrow> Inl NotFound
      | Some j \<Rightarrow> if isTerminal j then Inl AlreadyTerminal else Inr (store(i \<mapsto> f j)))"

definition getJobStatus :: "JobStore \<Rightarrow> nat \<Rightarrow> ApiError + Job" where
  "getJobStatus store i = storeGet store i"

definition createJob ::
    "JobStore \<Rightarrow> nat \<Rightarrow> string \<Rightarrow> string \<Rightarrow> bool \<Rightarrow> ApiError + JobStore" where
  "createJob store i source kind publish =
     (if kind \<in> set recognized_kinds then storeCreate store (newJob i source kind publish)
      else Inl InvalidInput)"

text \<open>
  What can happen to the store between two reads: a job is created, or a job is updated
  by some transition function (the engine uses \<open>transition\<close>). An operation that fails
  leaves the store as it was.
\<close>

datatype StoreOp = Create Job | Update nat "Job \<Rightarrow> Job"

fun applyOp :: "JobStore \<Rightarrow> StoreOp \<Rightarrow> JobStore" where
  "applyOp store (Create j) =
     (case storeCreate store j of Inl _ \<Rightarrow> store | Inr store' \<Rightarrow> store')"
| "applyOp store (Update i f) =
     (case storeUpdate store i f of Inl _ \<Rightarrow> store | Inr store' \<Rightarrow> store')"

section \<open>Example values\<close>

definition example_job :: MigrationJob where
  "example_job =
     \<lparr>job_id = ''job-1'', status = ''pending'', migration_type = py2to3,
      created_at = ''2024-01-01T00:00:00Z'', completed_at = None, error = None,
      file_count = 0, issues_found = 0, issues_fixed = 0, tests_passed = None,
      pr_url = None, current_agent = None, messages = None\<rparr>"

definition example_file :: "string \<Rightarrow> File" where
  "example_file n = \<lparr>file_name = utf16 n, file_size = 1024\<rparr>"

definition example_url :: js_string where
  "example_url = utf16 ''https://github.com/owner/repo''"

text \<open>
  RepoMigration: a migration is started and answered with the pending job; the interval
  fires twice before any response is back; the call issued second is answered first,
  with the completed job.
\<close>

definition events_until_completed :: "RepoMigration_event list" where
  "events_until_completed =
     [rm_ChangeRepoUrl example_url, rm_ClickMigrate, rm_MigrateSettled (Inr example_job),
      rm_Poll PollTick, rm_Poll PollTick,
      rm_Poll (PollSettled (Inr (example_job\<lparr>status := ''completed''\<rparr>)))]"


definition completed_job :: Job where
  "completed_job = enterStatus Completed ''completed'' (newJob 1 ''repo'' ''py2to3'' True)"

definition no_metrics :: Metrics where
  "no_metrics = \<lparr>moreFilesProcessed = 0, moreIssuesFound = 0, moreIssuesFixed = 0\<rparr>"

text \<open>A run in which every stage succeeds until Testing fails with a retryable failure.\<close>

definition events_test_fails :: "Event list" where
  "events_test_fails =
     [Pickup, Outcome (Success ''tree'' no_metrics), Outcome (Success ''patterns'' no_metrics),
      Outcome (Success ''rewritten'' no_metrics), Outcome (Failure ''tests failed'' True)]"

section \<open>Properties of the string functions\<close>

lemma dropWhile_all_iff:
  "(\<forall>x \<in> set (dropWhile P xs). P x) \<longleftrightarrow> (\<forall>x \<in> set xs. P x)"
proof
  assume a: "\<forall>x \<in> set (dropWhile P xs). P x"
  have "dropWhile P xs = []"
  proof (rule ccontr)
    assume ne: "dropWhile P xs \<noteq> []"
    then have "\<not> P (hd (dropWhile P xs))" by (rule hd_dropWhile)
    moreover have "hd (dropWhile P xs) \<in> set (dropWhile P xs)"
      using ne by (rule hd_in_set)
    ultimately show False using a by blast
  qed
  then show "\<forall>x \<in> set xs. P x" by simp
next
  assume "\<forall>x \<in> set xs. P x"
  then show "\<forall>x \<in> set (dropWhile P xs). P x"
    by (blast dest: set_dropWhileD)
qed

text \<open>Trimming leaves nothing exactly when every code unit is white space.\<close>

lemma js_trim_empty_iff: "js_trim s = [] \<longleftrightarrow> (\<forall>c \<in> set s. isWhiteSpace c)"
  by (simp add: js_trim_def dropWhile_all_iff)

lemma endsWith_iff: "endsWith s suffix \<longleftrightarrow> (\<exists>p. s = p @ suffix)"
proof
  assume e: "endsWith s suffix"
  then have "s = take (length s - length suffix) s @ suffix"
    by (metis append_take_drop_id endsWith_def)
  then show "\<exists>p. s = p @ suffix" ..
next
  assume "\<exists>p. s = p @ suffix"
  then show "endsWith s suffix" by (auto simp: endsWith_def)
qed

section \<open>Input validation of the migrate actions\<close>

text \<open>
  Claim C8. A migrate action whose input is empty after trimming (the snippet of
  CodeSnippet, the repository URL of RepoMigration) sets the error message and returns
  without issuing a request to the migration API; nothing else of the state changes, so
  no job is started.
\<close>

theorem handleMigrate_blank_input:
  "(js_trim (cs_code s) = [] \<longrightarrow>
      CodeSnippet_handleMigrate s =
        (s\<lparr>cs_error := Some ''Please enter some code to migrate''\<rparr>, None)) \<and>
   (js_trim (rm_repoUrl r) = [] \<longrightarrow>
      RepoMigration_handleMigrate r =
        (r\<lparr>rm_error := Some ''Please enter a repository URL''\<rparr>, None))"
  by (simp add: CodeSnippet_handleMigrate_def RepoMigration_handleMigrate_def)

text \<open>The claim at a snippet of a space, a tab and a line feed, and a URL of two spaces.\<close>

theorem handleMigrate_blank_input_witness:
  "js_trim (cs_code (CodeSnippet_init\<lparr>cs_code := [32, 9, 10]\<rparr>)) = [] \<and>
   CodeSnippet_handleMigrate (CodeSnippet_init\<lparr>cs_code := [32, 9, 10]\<rparr>) =
     (CodeSnippet_init\<lparr>cs_code := [32, 9, 10],
        cs_error := Some ''Please enter some code to migrate''\<rparr>, None) \<and>
   js_trim (rm_repoUrl (RepoMigration_init\<lparr>rm_repoUrl := [32, 32]\<rparr>)) = [] \<and>
   RepoMigration_handleMigrate (RepoMigration_init\<lparr>rm_repoUrl := [32, 32]\<rparr>) =
     (RepoMigration_init\<lparr>rm_repoUrl := [32, 32],
        rm_error := Some ''Please enter a repository URL''\<rparr>, None)"
proof -
  have c: "js_trim (cs_code (CodeSnippet_init\<lparr>cs_code := [32, 9, 10]\<rparr>)) = []"
    by (simp add: js_trim_def isWhiteSpace_def)
  have u: "js_trim (rm_repoUrl (RepoMigration_init\<lparr>rm_repoUrl := [32, 32]\<rparr>)) = []"
    by (simp add: js_trim_def isWhiteSpace_def)
  show ?thesis
    using c u
      handleMigrate_blank_input [of "CodeSnippet_init\<lparr>cs_code := [32, 9, 10]\<rparr>"
        "RepoMigration_init\<lparr>rm_repoUrl := [32, 32]\<rparr>"]
    by simp
qed

section \<open>Dropping a file\<close>

text \<open>
  The statement of claim C9, that every file dropped into the upload zone whose name does
  not end with \<open>.zip\<close> sets the error message, fails for a file that the dropzone
  rejects: \<open>onDrop\<close> then sees no file, and the drop only clears the error that was
  shown.
\<close>

theorem drop_rejected_sets_no_error:
  "\<not> endsWith (file_name (example_file ''notes.txt'')) (utf16 ''.zip'') \<and>
   FileUpload_drop \<lparr>drop_accepted = [], drop_rejected = [example_file ''notes.txt'']\<rparr>
      (FileUpload_init\<lparr>fu_error := Some ''Failed to start migration''\<rparr>) =
     FileUpload_init \<and>
   fu_error (FileUpload_drop
      \<lparr>drop_accepted = [], drop_rejected = [example_file ''notes.txt'']\<rparr>
      (FileUpload_init\<lparr>fu_error := Some ''Failed to start migration''\<rparr>)) = None"
  by (simp add: FileUpload_drop_def onDrop_def FileUpload_init_def endsWith_def
      example_file_def utf16_def)

text \<open>
  Claim C9, amended. Of a drop, FileUpload looks at the first file that the dropzone
  accepted: it becomes the selected file if and only if its name ends with \<open>.zip\<close>
  (the error is then cleared); for any other name the error is set to "Please upload a
  ZIP file" and the selected file stays what it was. A drop of which the dropzone
  accepted no file selects nothing and sets no error message: it clears the error. No
  other cell of the state changes.
\<close>

theorem drop_zip_only:
  "FileUpload_drop d s =
     (case drop_accepted d of
        [] \<Rightarrow> s\<lparr>fu_error := None\<rparr>
      | file # others \<Rightarrow>
          if endsWith (file_name file) (utf16 ''.zip'')
          then s\<lparr>fu_selectedFile := Some file, fu_error := None\<rparr>
          else s\<lparr>fu_error := Some ''Please upload a ZIP file''\<rparr>)"
  by (simp add: FileUpload_drop_def onDrop_def split: list.split)

text \<open>
  The amended claim at two drops: \<open>repo.zip\<close> on the initial state, and \<open>repo.ZIP\<close>,
  which the dropzone accepts by its extension, while \<open>old.zip\<close> is selected; it is
  refused because \<open>endsWith\<close> compares code units.
\<close>

theorem drop_zip_only_witness:
  "FileUpload_drop \<lparr>drop_accepted = [example_file ''repo.zip''], drop_rejected = []\<rparr>
      FileUpload_init =
     FileUpload_init\<lparr>fu_selectedFile := Some (example_file ''repo.zip'')\<rparr> \<and>
   FileUpload_drop \<lparr>drop_accepted = [example_file ''repo.ZIP''], drop_rejected = []\<rparr>
       (FileUpload_init\<lparr>fu_selectedFile := Some (example_file ''old.zip'')\<rparr>) =
     FileUpload_init\<lparr>fu_selectedFile := Some (example_file ''old.zip''),
       fu_error := Some ''Please upload a ZIP file''\<rparr>"
proof -
  have z: "endsWith (file_name (example_file ''repo.zip'')) (utf16 ''.zip'')"
    by (simp add: endsWith_def example_file_def utf16_def)
  have n: "\<not> endsWith (file_name (example_file ''repo.ZIP'')) (utf16 ''.zip'')"
    by (simp add: endsWith_def example_file_def utf16_def)
  from drop_zip_only
      [of "\<lparr>drop_accepted = [example_file ''repo.zip''], drop_rejected = []\<rparr>"
        FileUpload_init]
    drop_zip_only
      [of "\<lparr>drop_accepted = [example_file ''repo.ZIP''], drop_rejected = []\<rparr>"
        "FileUpload_init\<lparr>fu_selectedFile := Some (example_file ''old.zip'')\<rparr>"] z n
  show ?thesis by (simp add: FileUpload_init_def)
qed

section \<open>The progress indicator of RepoMigration\<close>

lemma indexOf_from_absent: "x \<notin> set xs \<Longrightarrow> indexOf_from k xs x = - 1"
  by (induction xs arbitrary: k) auto

text \<open>
  Claim C10. For a status outside the five displayed stages, \<open>indexOf\<close> over the stage
  list is \<open>-1\<close>, so no circle of the progress indicator is active and none is current.
\<close>

theorem progressIndicator_outside_stages:
  "st \<notin> set stages \<Longrightarrow>
     indexOf stages st = - 1 \<and> progressIndicator st = replicate 5 (False, False)"
proof -
  assume out: "st \<notin> set stages"
  then have i: "indexOf stages st = - 1"
    by (simp add: indexOf_def indexOf_from_absent)
  have a: "\<And>index. \<not> isActive st index"
    by (simp add: isActive_def i)
  have "zip stages [0 ..< length stages] =
          [(''cloning'', 0), (''planning'', 1), (''coding'', 2), (''testing'', 3),
           (''completed'', 4)]"
    by (simp add: stages_def upt_rec)
  moreover have "st \<noteq> ''cloning''" "st \<noteq> ''planning''" "st \<noteq> ''coding''" "st \<noteq> ''testing''"
    "st \<noteq> ''completed''"
    using out by (auto simp: stages_def)
  ultimately have "progressIndicator st = replicate 5 (False, False)"
    by (simp add: progressIndicator_def a isCurrent_def numeral_eq_Suc)
  with i show ?thesis by simp
qed

text \<open>The claim at the two statuses it names, \<open>pending\<close> and \<open>failed\<close>.\<close>

theorem progressIndicator_outside_stages_witness:
  "''pending'' \<notin> set stages \<and> indexOf stages ''pending'' = - 1 \<and>
   progressIndicator ''pending'' = replicate 5 (False, False) \<and>
   ''failed'' \<notin> set stages \<and> indexOf stages ''failed'' = - 1 \<and>
   progressIndicator ''failed'' = replicate 5 (False, False)"
proof -
  have p: "''pending'' \<notin> set stages" and f: "''failed'' \<notin> set stages"
    by (simp_all add: stages_def)
  show ?thesis
    using p f progressIndicator_outside_stages [OF p] progressIndicator_outside_stages [OF f]
    by simp
qed

section \<open>The statuses a job can have\<close>




section \<open>The migration kind of a request\<close>

text \<open>
  An invariant of a run carries over to the final state, and what every step guarantees
  of the request it issues holds of all requests of the run.
\<close>

lemma run_events_invariant:
  assumes "I s"
    and "\<And>e s s' r. I s \<Longrightarrow> step e s = (s', r) \<Longrightarrow> I s' \<and> (\<forall>q. r = Some q \<longrightarrow> P q)"
  shows "I (fst (run_events step evs s)) \<and> (\<forall>q \<in> set (snd (run_events step evs s)). P q)"
  using assms(1)
proof (induction evs arbitrary: s)
  case Nil
  then show ?case by simp
next
  case (Cons e es)
  obtain s1 r where st: "step e s = (s1, r)" by (cases "step e s")
  from assms(2) [OF Cons.prems st] have i1: "I s1" and pr: "\<forall>q. r = Some q \<longrightarrow> P q" by auto
  from Cons.IH [OF i1] have ih: "I (fst (run_events step es s1))"
    "\<forall>q \<in> set (snd (run_events step es s1)). P q" by auto
  obtain s2 rs where rn: "run_events step es s1 = (s2, rs)" by (cases "run_events step es s1")
  show ?case using st rn ih pr by (cases r) auto
qed

lemma CodeSnippet_step_kind:
  "cs_migrationType s \<in> set recognized_kinds \<Longrightarrow> CodeSnippet_step e s = (s', r) \<Longrightarrow>
     cs_migrationType s' \<in> set recognized_kinds \<and>
     (\<forall>q. r = Some q \<longrightarrow> (\<forall>k. request_kind q = Some k \<longrightarrow> k \<in> set recognized_kinds))"
  by (cases e)
    (auto simp: CodeSnippet_handleMigrate_def CodeSnippet_migrateSettled_def
      recognized_kinds_def split: if_splits sum.splits)

lemma FileUpload_step_kind:
  "fu_migrationType s \<in> set recognized_kinds \<Longrightarrow> FileUpload_step e s = (s', r) \<Longrightarrow>
     fu_migrationType s' \<in> set recognized_kinds \<and>
     (\<forall>q. r = Some q \<longrightarrow> (\<forall>k. request_kind q = Some k \<longrightarrow> k \<in> set recognized_kinds))"
  by (cases e)
    (auto simp: handleSubmit_def submitSettled_def onDrop_def handleRemoveFile_def Let_def
      recognized_kinds_def split: if_splits sum.splits option.splits list.splits)

lemma RepoMigration_setJob_migrationType [simp]:
  "rm_migrationType (RepoMigration_setJob jo s) = rm_migrationType s"
  by (cases jo) auto

lemma RepoMigration_poll_kind:
  "RepoMigration_poll e s = (s', r) \<Longrightarrow>
     rm_migrationType s' = rm_migrationType s \<and> (\<forall>q. r = Some q \<longrightarrow> request_kind q = None)"
  by (cases e)
    (auto simp: RepoMigration_pollTick_def RepoMigration_pollSettled_def
      split: if_splits sum.splits option.splits)

lemma RepoMigration_step_kind:
  "rm_migrationType s \<in> set recognized_kinds \<Longrightarrow> RepoMigration_step e s = (s', r) \<Longrightarrow>
     rm_migrationType s' \<in> set recognized_kinds \<and>
     (\<forall>q. r = Some q \<longrightarrow> (\<forall>k. request_kind q = Some k \<longrightarrow> k \<in> set recognized_kinds))"
proof (cases e)
  case (rm_ChangeMigrationType opt)
  then show "rm_migrationType s \<in> set recognized_kinds \<Longrightarrow>
      RepoMigration_step e s = (s', r) \<Longrightarrow> ?thesis"
    by (cases opt) (auto simp: recognized_kinds_def)
next
  case (rm_Poll pe)
  then show "rm_migrationType s \<in> set recognized_kinds \<Longrightarrow>
      RepoMigration_step e s = (s', r) \<Longrightarrow> ?thesis"
    by (auto dest: RepoMigration_poll_kind)
qed (auto simp: RepoMigration_handleMigrate_def RepoMigration_migrateSettled_def
      recognized_kinds_def split: if_splits sum.splits option.splits thrown.splits)

text \<open>
  Claim C7. Create Job fails with InvalidInput whenever the migration kind is not
  recognized; and in every run of CodeSnippet, FileUpload and RepoMigration from their
  initial states, every request that carries a migration kind carries one of the
  recognized kinds, \<open>py2to3\<close> or \<open>flask_to_fastapi\<close>, so that Create Job does not
  fail with InvalidInput on it.
\<close>

theorem migration_kind_recognized:
  "(kind \<notin> set recognized_kinds \<longrightarrow>
      createJob store i source kind publish = Inl InvalidInput) \<and>
   (\<forall>q \<in> set (snd (run_events CodeSnippet_step evs1 CodeSnippet_init)) \<union>
          set (snd (run_events FileUpload_step evs2 FileUpload_init)) \<union>
          set (snd (run_events RepoMigration_step evs3 RepoMigration_init)).
      \<forall>k. request_kind q = Some k \<longrightarrow>
        k \<in> set recognized_kinds \<and> createJob store i source k publish \<noteq> Inl InvalidInput)"
proof -
  have ok: "\<And>k. k \<in> set recognized_kinds \<Longrightarrow>
      createJob store i source k publish \<noteq> Inl InvalidInput"
    by (auto simp: createJob_def storeCreate_def split: option.splits)
  have c: "\<forall>q \<in> set (snd (run_events CodeSnippet_step evs1 CodeSnippet_init)).
      \<forall>k. request_kind q = Some k \<longrightarrow> k \<in> set recognized_kinds"
    using run_events_invariant
      [where I = "\<lambda>s. cs_migrationType s \<in> set recognized_kinds" and step = CodeSnippet_step
        and s = CodeSnippet_init and evs = evs1, OF _ CodeSnippet_step_kind]
    by (simp add: CodeSnippet_init_def recognized_kinds_def)
  have f: "\<forall>q \<in> set (snd (run_events FileUpload_step evs2 FileUpload_init)).
      \<forall>k. request_kind q = Some k \<longrightarrow> k \<in> set recognized_kinds"
    using run_events_invariant
      [where I = "\<lambda>s. fu_migrationType s \<in> set recognized_kinds" and step = FileUpload_step
        and s = FileUpload_init and evs = evs2, OF _ FileUpload_step_kind]
    by (simp add: FileUpload_init_def recognized_kinds_def)
  have r: "\<forall>q \<in> set (snd (run_events RepoMigration_step evs3 RepoMigration_init)).
      \<forall>k. request_kind q = Some k \<longrightarrow> k \<in> set recognized_kinds"
    using run_events_invariant
      [where I = "\<lambda>s. rm_migrationType s \<in> set recognized_kinds" and step = RepoMigration_step
        and s = RepoMigration_init and evs = evs3, OF _ RepoMigration_step_kind]
    by (simp add: RepoMigration_init_def recognized_kinds_def)
  have k: "kind \<notin> set recognized_kinds \<longrightarrow>
      createJob store i source kind publish = Inl InvalidInput"
    by (simp add: createJob_def)
  from c f r k ok show ?thesis by blast
qed

text \<open>
  The claim at the kind \<open>cobol_to_java\<close>, and at a run of RepoMigration in which the
  second option is chosen before the migration is started.
\<close>

theorem migration_kind_recognized_witness:
  "''cobol_to_java'' \<notin> set recognized_kinds \<and>
   createJob Map.empty 1 ''repo'' ''cobol_to_java'' True = Inl InvalidInput \<and>
   snd (run_events RepoMigration_step
          [rm_ChangeMigrationType option_flask_to_fastapi, rm_ChangeRepoUrl example_url,
           rm_ClickMigrate] RepoMigration_init) =
     [MigrateRepository example_url ''flask_to_fastapi'' True] \<and>
   request_kind (MigrateRepository example_url ''flask_to_fastapi'' True) =
     Some ''flask_to_fastapi'' \<and>
   ''flask_to_fastapi'' \<in> set recognized_kinds"
proof -
  have n: "''cobol_to_java'' \<notin> set recognized_kinds"
    by (simp add: recognized_kinds_def)
  have u: "js_trim example_url \<noteq> []"
    by (simp add: js_trim_empty_iff example_url_def utf16_def isWhiteSpace_def)
  have run: "snd (run_events RepoMigration_step
          [rm_ChangeMigrationType option_flask_to_fastapi, rm_ChangeRepoUrl example_url,
           rm_ClickMigrate] RepoMigration_init) =
     [MigrateRepository example_url ''flask_to_fastapi'' True]"
    using u by (simp add: RepoMigration_handleMigrate_def RepoMigration_init_def)
  from migration_kind_recognized
    [of "''cobol_to_java''" Map.empty 1 "''repo''" True "[]" "[]"
      "[rm_ChangeMigrationType option_flask_to_fastapi, rm_ChangeRepoUrl example_url,
        rm_ClickMigrate]"]
  have "createJob Map.empty 1 ''repo'' ''cobol_to_java'' True = Inl InvalidInput"
    and "''flask_to_fastapi'' \<in> set recognized_kinds"
    using n run by auto
  with n run show ?thesis by simp
qed

section \<open>Polling a finished job\<close>

text \<open>
  While the job shown is finished, the interval is not live: a tick issues no request.
  With no call awaited either, no polling event changes the state.
\<close>

lemma RepoMigration_poll_finished:
  "rm_job s = Some j \<Longrightarrow> jobFinished j \<Longrightarrow> \<not> rm_pollInterval s \<Longrightarrow>
   rm_inFlight s = 0 \<Longrightarrow>
     run_events RepoMigration_poll evs s = (s, [])"
proof (induction evs)
  case Nil
  then show ?case by simp
next
  case (Cons e es)
  then have "RepoMigration_poll e s = (s, None)"
    by (cases e) (simp_all add: RepoMigration_pollTick_def RepoMigration_pollSettled_def)
  with Cons show ?case by simp
qed

lemma MigrationProgress_poll_finished:
  "jobFinished (mp_currentJob s) \<Longrightarrow> \<not> mp_pollInterval s \<Longrightarrow> mp_inFlight s = 0 \<Longrightarrow>
     run_events MigrationProgress_poll evs s = (s, [])"
proof (induction evs)
  case Nil
  then show ?case by simp
next
  case (Cons e es)
  then have "MigrationProgress_poll e s = (s, None)"
    by (cases e) (simp_all add: MigrationProgress_pollTick_def MigrationProgress_pollSettled_def)
  with Cons show ?case by simp
qed

text \<open>
  In every state that RepoMigration reaches, the interval is live exactly when a job is
  shown that is not finished.
\<close>

lemma RepoMigration_interval_step:
  "rm_pollInterval s = (case rm_job s of None \<Rightarrow> False | Some j \<Rightarrow> \<not> jobFinished j) \<Longrightarrow>
   RepoMigration_step e s = (s', r) \<Longrightarrow>
     rm_pollInterval s' = (case rm_job s' of None \<Rightarrow> False | Some j \<Rightarrow> \<not> jobFinished j)"
proof (cases e)
  case (rm_Poll pe)
  then show
    "rm_pollInterval s = (case rm_job s of None \<Rightarrow> False | Some j \<Rightarrow> \<not> jobFinished j) \<Longrightarrow>
      RepoMigration_step e s = (s', r) \<Longrightarrow> ?thesis"
    by (cases pe)
      (auto simp: RepoMigration_pollTick_def RepoMigration_pollSettled_def
        split: if_splits sum.splits option.splits)
qed (auto simp: RepoMigration_handleMigrate_def RepoMigration_migrateSettled_def
      split: if_splits sum.splits option.splits thrown.splits)

lemma RepoMigration_interval_reachable:
  "rm_pollInterval (fst (run_events RepoMigration_step evs RepoMigration_init)) =
     (case rm_job (fst (run_events RepoMigration_step evs RepoMigration_init)) of
        None \<Rightarrow> False
      | Some j \<Rightarrow> \<not> jobFinished j)"
  using run_events_invariant
    [where I = "\<lambda>s. rm_pollInterval s =
        (case rm_job s of None \<Rightarrow> False | Some j \<Rightarrow> \<not> jobFinished j)"
      and step = RepoMigration_step and s = RepoMigration_init and evs = evs
      and P = "\<lambda>q. True"]
    RepoMigration_interval_step
  by (simp add: RepoMigration_init_def)

text \<open>
  So in every state that RepoMigration reaches, and in every state that MigrationProgress
  reaches by polling after it was mounted, a finished job with no status call awaited is
  never replaced, and no further status request is issued.
\<close>

lemma RepoMigration_finished_reachable:
  assumes "s = fst (run_events RepoMigration_step evs RepoMigration_init)"
    and "rm_job s = Some j" and "jobFinished j" and "rm_inFlight s = 0"
  shows "run_events RepoMigration_poll pevs s = (s, [])"
proof -
  have "\<not> rm_pollInterval s"
    using RepoMigration_interval_reachable [of evs] assms(1-3) by simp
  with assms(2-4) show ?thesis by (simp add: RepoMigration_poll_finished)
qed

lemma MigrationProgress_interval_poll:
  "mp_pollInterval s = (\<not> jobFinished (mp_currentJob s)) \<Longrightarrow>
   MigrationProgress_poll e s = (s', r) \<Longrightarrow>
     mp_pollInterval s' = (\<not> jobFinished (mp_currentJob s'))"
  by (cases e)
    (auto simp: MigrationProgress_pollTick_def MigrationProgress_pollSettled_def
      jobFinished_def split: if_splits sum.splits)

lemma MigrationProgress_finished_reachable:
  assumes "s = fst (run_events MigrationProgress_poll evs (MigrationProgress_mount job))"
    and "jobFinished (mp_currentJob s)" and "mp_inFlight s = 0"
  shows "run_events MigrationProgress_poll pevs s = (s, [])"
proof -
  have "mp_pollInterval s = (\<not> jobFinished (mp_currentJob s))"
    using run_events_invariant
      [where I = "\<lambda>s. mp_pollInterval s = (\<not> jobFinished (mp_currentJob s))"
        and step = MigrationProgress_poll and s = "MigrationProgress_mount job"
        and evs = evs and P = "\<lambda>q. True"]
      MigrationProgress_interval_poll assms(1)
    by (simp add: MigrationProgress_mount_def)
  with assms(2) have "\<not> mp_pollInterval s" by simp
  with assms(2,3) show ?thesis by (simp add: MigrationProgress_poll_finished)
qed

text \<open>
  Claim C2 on a run of each component in which two status calls are awaited at once. In
  RepoMigration the completed job is shown after \<open>events_until_completed\<close>, with one
  call still awaited; its response, an older snapshot with status \<open>testing\<close>, then
  replaces the completed job, the interval is live again, and the next tick issues a
  further status request. In MigrationProgress the same happens after a failed job.
\<close>

theorem poll_response_after_finished:
  "rm_job (fst (run_events RepoMigration_step events_until_completed RepoMigration_init)) =
     Some (example_job\<lparr>status := ''completed''\<rparr>) \<and>
   rm_inFlight (fst (run_events RepoMigration_step events_until_completed RepoMigration_init)) =
     1 \<and>
   rm_job (fst (run_events RepoMigration_step
      (events_until_completed @
         [rm_Poll (PollSettled (Inr (example_job\<lparr>status := ''testing''\<rparr>)))])
      RepoMigration_init)) =
     Some (example_job\<lparr>status := ''testing''\<rparr>) \<and>
   snd (run_events RepoMigration_step
      (events_until_completed @
         [rm_Poll (PollSettled (Inr (example_job\<lparr>status := ''testing''\<rparr>))),
          rm_Poll PollTick])
      RepoMigration_init) =
     [MigrateRepository example_url ''py2to3'' True,
      GetJobStatus ''job-1'', GetJobStatus ''job-1'', GetJobStatus ''job-1''] \<and>
   mp_currentJob (fst (run_events MigrationProgress_poll
      [PollTick, PollTick, PollSettled (Inr (example_job\<lparr>status := ''failed''\<rparr>))]
      (MigrationProgress_mount example_job))) =
     example_job\<lparr>status := ''failed''\<rparr> \<and>
   mp_currentJob (fst (run_events MigrationProgress_poll
      [PollTick, PollTick, PollSettled (Inr (example_job\<lparr>status := ''failed''\<rparr>)),
       PollSettled (Inr (example_job\<lparr>status := ''testing''\<rparr>))]
      (MigrationProgress_mount example_job))) =
     example_job\<lparr>status := ''testing''\<rparr> \<and>
   snd (run_events MigrationProgress_poll
      [PollTick, PollTick, PollSettled (Inr (example_job\<lparr>status := ''failed''\<rparr>)),
       PollSettled (Inr (example_job\<lparr>status := ''testing''\<rparr>)), PollTick]
      (MigrationProgress_mount example_job)) =
     [GetJobStatus ''job-1'', GetJobStatus ''job-1'', GetJobStatus ''job-1'']"
proof -
  have u: "js_trim example_url \<noteq> []"
    by (simp add: js_trim_empty_iff example_url_def utf16_def isWhiteSpace_def)
  have j: "\<not> jobFinished example_job" "jobFinished (example_job\<lparr>status := ''completed''\<rparr>)"
    "jobFinished (example_job\<lparr>status := ''failed''\<rparr>)"
    "\<not> jobFinished (example_job\<lparr>status := ''testing''\<rparr>)"
    "job_id example_job = ''job-1''" "status example_job = ''pending''"
    by (simp_all add: jobFinished_def example_job_def)
  show ?thesis
    using u j
    by (simp add: events_until_completed_def RepoMigration_init_def
        RepoMigration_handleMigrate_def RepoMigration_migrateSettled_def
        RepoMigration_pollTick_def RepoMigration_pollSettled_def
        MigrationProgress_mount_def MigrationProgress_pollTick_def
        MigrationProgress_pollSettled_def)
qed

section \<open>The orchestrator: terminal states, retries and fatal failures\<close>

lemma transition_terminal: "isTerminal j \<Longrightarrow> transition maxRetries j ev = j"
  by (auto simp: isTerminal_def transition_def)


lemma enterStatus_simps [simp]:
  "jobStatus (enterStatus st e j) = st"
  "currentAgent (enterStatus st e j) = agentOf st"
  "testRetryCount (enterStatus st e j) = testRetryCount j"
  "errorDetail (enterStatus st e j) = errorDetail j"
  by (simp_all add: enterStatus_def)

lemma failJob_simps [simp]:
  "jobStatus (failJob c e j) = Failed"
  "currentAgent (failJob c e j) = None"
  "testRetryCount (failJob c e j) = testRetryCount j"
  "errorDetail (failJob c e j) = Some c"
  by (simp_all add: failJob_def)

lemma addMetrics_simps [simp]:
  "jobStatus (addMetrics m j) = jobStatus j"
  "testRetryCount (addMetrics m j) = testRetryCount j"
  by (simp_all add: addMetrics_def)

text \<open>
  The scenarios of section 8 of the specification, run on the model. A: the planner
  finds three patterns, the coder fixes three, the tester passes. B: the tester fails
  once and passes on the second attempt. C: under a maximum of three the tester fails on
  all three attempts. D: cloning fails.
\<close>

lemma scenario_A:
  "foldl (transition 2) (newJob 1 ''repo'' ''py2to3'' True)
     [Pickup, Outcome (Success ''tree'' no_metrics),
      Outcome (Success ''patterns'' (no_metrics\<lparr>moreIssuesFound := 3\<rparr>)),
      Outcome (Success ''rewritten'' (no_metrics\<lparr>moreIssuesFixed := 3\<rparr>)),
      Outcome (Success ''passed'' no_metrics)] =
   (newJob 1 ''repo'' ''py2to3'' True)
     \<lparr>jobStatus := Completed, issuesFound := 3, issuesFixed := 3, testOutcome := TestPassed,
      activityLog := [''cloning'', ''planning'', ''coding'', ''testing'', ''completed'']\<rparr>"
  by (simp add: transition_def newJob_def no_metrics_def addMetrics_def enterStatus_def)

lemma scenario_B:
  "jobStatus (foldl (transition 2) (newJob 1 ''repo'' ''py2to3'' True)
     (events_test_fails @
        [Outcome (Success ''rewritten'' no_metrics), Outcome (Success ''passed'' no_metrics)])) =
     Completed \<and>
   testRetryCount (foldl (transition 2) (newJob 1 ''repo'' ''py2to3'' True)
     (events_test_fails @
        [Outcome (Success ''rewritten'' no_metrics), Outcome (Success ''passed'' no_metrics)])) =
     1"
  by (simp add: events_test_fails_def transition_def newJob_def no_metrics_def addMetrics_def
      enterStatus_def retryTesting_def Let_def)

lemma scenario_C:
  "jobStatus (foldl (transition 3) (newJob 1 ''repo'' ''py2to3'' True)
     (events_test_fails @
        [Outcome (Success ''rewritten'' no_metrics), Outcome (Failure ''tests failed'' True),
         Outcome (Success ''rewritten'' no_metrics), Outcome (Failure ''tests failed'' True)])) =
     Failed \<and>
   errorDetail (foldl (transition 3) (newJob 1 ''repo'' ''py2to3'' True)
     (events_test_fails @
        [Outcome (Success ''rewritten'' no_metrics), Outcome (Failure ''tests failed'' True),
         Outcome (Success ''rewritten'' no_metrics), Outcome (Failure ''tests failed'' True)])) =
     Some ConvergenceFailure \<and>
   testRetryCount (foldl (transition 3) (newJob 1 ''repo'' ''py2to3'' True)
     (events_test_fails @
        [Outcome (Success ''rewritten'' no_metrics), Outcome (Failure ''tests failed'' True),
         Outcome (Success ''rewritten'' no_metrics), Outcome (Failure ''tests failed'' True)])) =
     3"
  by (simp add: events_test_fails_def transition_def newJob_def no_metrics_def addMetrics_def
      enterStatus_def failJob_def retryTesting_def Let_def)

lemma scenario_D:
  "foldl (transition 2) (newJob 1 ''repo'' ''py2to3'' True)
     [Pickup, Outcome (Failure ''unreachable source'' False),
      Outcome (Success ''patterns'' no_metrics)] =
   (newJob 1 ''repo'' ''py2to3'' True)
     \<lparr>jobStatus := Failed, errorDetail := Some (StageFailure ''unreachable source''),
      activityLog := [''cloning'', ''failed'']\<rparr>"
  by (simp add: transition_def newJob_def enterStatus_def failJob_def)



lemma retryInv_transition:
  "retryInv maxRetries j \<Longrightarrow> retryInv maxRetries (transition maxRetries j ev)"
proof (cases "isTerminal j")
  case True
  then show "retryInv maxRetries j \<Longrightarrow> ?thesis" by (simp add: transition_terminal)
next
  case False
  assume inv: "retryInv maxRetries j"
  with False have lt: "testRetryCount j < maxRetries" by (simp add: retryInv_def)
  show ?thesis
  proof (cases ev)
    case Pickup
    then show ?thesis using lt by (cases "jobStatus j") (auto simp: transition_def retryInv_def)
  next
    case (Outcome out)
    show ?thesis
    proof (cases out)
      case (Success p m)
      then show ?thesis using lt Outcome
        by (cases "jobStatus j") (auto simp: transition_def retryInv_def)
    next
      case (Failure c r)
      then show ?thesis using lt Outcome
        by (cases "jobStatus j")
          (auto simp: transition_def retryInv_def retryTesting_def Let_def isTerminal_def)
    qed
  qed
qed

lemma retryInv_run:
  "retryInv maxRetries j \<Longrightarrow> retryInv maxRetries (foldl (transition maxRetries) j evs)"
  by (induction evs arbitrary: j) (simp_all add: retryInv_transition)

text \<open>
  Section 4.3 is modelled as it is worded: a retryable failure of Testing is counted, and
  the count is then compared with the maximum. With a maximum of zero the first such
  failure therefore leaves a count of one.
\<close>

lemma retry_count_zero_maximum:
  "jobStatus (foldl (transition 0) (newJob 1 ''repo'' ''py2to3'' True) events_test_fails) =
     Failed \<and>
   testRetryCount (foldl (transition 0) (newJob 1 ''repo'' ''py2to3'' True) events_test_fails) =
     1 \<and>
   \<not> testRetryCount (foldl (transition 0) (newJob 1 ''repo'' ''py2to3'' True) events_test_fails)
       \<le> 0"
  by (simp add: events_test_fails_def transition_def newJob_def retryTesting_def Let_def
      addMetrics_def enterStatus_def failJob_def)

text \<open>
  For every positive maximum the retry count of a job stays within the maximum, in any
  run from its creation; and a retryable failure of Testing that brings the count to the
  maximum (or beyond) moves the job to Failed with cause ConvergenceFailure instead of a
  retry. Whether the bound also holds for a maximum of zero depends on whether a retry
  is counted before or after the comparison, which the specification does not settle.
\<close>

lemma retry_count_positive_maximum:
  "(0 < maxRetries \<longrightarrow>
      testRetryCount (foldl (transition maxRetries) (newJob i source kind publish) evs)
        \<le> maxRetries) \<and>
   (jobStatus j = Testing \<and> maxRetries \<le> testRetryCount j + 1 \<longrightarrow>
      jobStatus (transition maxRetries j (Outcome (Failure cause True))) = Failed \<and>
      errorDetail (transition maxRetries j (Outcome (Failure cause True))) =
        Some ConvergenceFailure \<and>
      testRetryCount (transition maxRetries j (Outcome (Failure cause True))) =
        testRetryCount j + 1)"
proof (intro conjI impI)
  assume "0 < maxRetries"
  then have "retryInv maxRetries (newJob i source kind publish)"
    by (simp add: retryInv_def newJob_def)
  then have "retryInv maxRetries
      (foldl (transition maxRetries) (newJob i source kind publish) evs)"
    by (rule retryInv_run)
  then show "testRetryCount (foldl (transition maxRetries) (newJob i source kind publish) evs)
      \<le> maxRetries"
    by (simp add: retryInv_def)
next
  assume a: "jobStatus j = Testing \<and> maxRetries \<le> testRetryCount j + 1"
  then have eq: "transition maxRetries j (Outcome (Failure cause True)) =
      failJob ConvergenceFailure ''validation did not converge''
        (j\<lparr>testRetryCount := testRetryCount j + 1, testOutcome := TestFailed\<rparr>)"
    by (simp add: transition_def retryTesting_def Let_def)
  show "jobStatus (transition maxRetries j (Outcome (Failure cause True))) = Failed"
    by (simp add: eq)
  show "errorDetail (transition maxRetries j (Outcome (Failure cause True))) =
        Some ConvergenceFailure"
    by (simp add: eq)
  show "testRetryCount (transition maxRetries j (Outcome (Failure cause True))) =
        testRetryCount j + 1"
    by (simp add: eq)
qed

section \<open>Reading a terminal job\<close>

lemma applyOp_terminal:
  "store i = Some j \<Longrightarrow> isTerminal j \<Longrightarrow> applyOp store op i = Some j"
  by (cases op) (auto simp: storeCreate_def storeUpdate_def split: option.splits)

lemma run_ops_terminal:
  "store i = Some j \<Longrightarrow> isTerminal j \<Longrightarrow> foldl applyOp store ops i = Some j"
  by (induction ops arbitrary: store) (simp_all add: applyOp_terminal)

text \<open>
  Claim C6. For a job whose status is terminal, Get Job Status returns the stored
  snapshot, and a second read returns the identical snapshot whatever operations the
  store has served in between.
\<close>

theorem terminal_read_idempotent:
  "store i = Some j \<Longrightarrow> isTerminal j \<Longrightarrow>
     getJobStatus store i = Inr j \<and> getJobStatus (foldl applyOp store ops) i = Inr j"
  by (simp add: getJobStatus_def storeGet_def run_ops_terminal)

text \<open>
  The claim at a store with one completed job, between whose reads an update tries to
  reset the job, the engine tries a transition, and two jobs are created.
\<close>

theorem terminal_read_idempotent_witness:
  "[1 \<mapsto> completed_job] 1 = Some completed_job \<and> isTerminal completed_job \<and>
   getJobStatus [1 \<mapsto> completed_job] 1 = Inr completed_job \<and>
   getJobStatus
     (foldl applyOp [1 \<mapsto> completed_job]
        [Update 1 (\<lambda>j. j\<lparr>jobStatus := Pending\<rparr>), Update 1 (\<lambda>j. transition 2 j Pickup),
         Create (newJob 1 ''other'' ''py2to3'' False),
         Create (newJob 2 ''other'' ''py2to3'' False)]) 1 =
     Inr completed_job"
proof -
  have s: "[1 \<mapsto> completed_job] (1::nat) = Some completed_job" by simp
  have t: "isTerminal completed_job" by (simp add: completed_job_def isTerminal_def)
  from terminal_read_idempotent
    [where store = "[1 \<mapsto> completed_job]" and i = 1 and j = completed_job
      and ops = "[Update 1 (\<lambda>j. j\<lparr>jobStatus := Pending\<rparr>),
        Update 1 (\<lambda>j. transition 2 j Pickup),
        Create (newJob 1 ''other'' ''py2to3'' False),
        Create (newJob 2 ''other'' ''py2to3'' False)]", OF s t] s t
  show ?thesis by simp
qed

end
